theory Spec2Isabelle
  imports Complex_Main "HOL-Library.Sublist"
begin

section \<open>Python values used by the Financial Detective\<close>

subsection \<open>Strings\<close>

text \<open>
  A Python \<open>str\<close> is a sequence of Unicode code points, so it is modelled as a list of
  natural numbers. \<open>lit\<close> turns an ASCII literal into such a list.
\<close>

type_synonym pystr = "nat list"

definition lit :: "string \<Rightarrow> pystr" where
  "lit cs = map of_char cs"

text \<open>\<open>str.isspace\<close> on one code point: the table of CPython's \<open>_PyUnicode_IsWhitespace\<close>.\<close>

definition isspace :: "nat \<Rightarrow> bool" where
  "isspace c \<longleftrightarrow>
     (0x9 \<le> c \<and> c \<le> 0xD) \<or> (0x1C \<le> c \<and> c \<le> 0x20) \<or> c = 0x85 \<or> c = 0xA0 \<or>
     c = 0x1680 \<or> (0x2000 \<le> c \<and> c \<le> 0x200A) \<or> c = 0x2028 \<or> c = 0x2029 \<or>
     c = 0x202F \<or> c = 0x205F \<or> c = 0x3000"

text \<open>\<open>s.strip()\<close>: whitespace removed at both ends.\<close>

definition strip :: "pystr \<Rightarrow> pystr" where
  "strip s = dropWhile isspace (rev (dropWhile isspace (rev s)))"

definition startswith :: "pystr \<Rightarrow> pystr \<Rightarrow> bool" where
  "startswith s p = prefix p s"

definition endswith :: "pystr \<Rightarrow> pystr \<Rightarrow> bool" where
  "endswith s p = suffix p s"

text \<open>\<open>s.replace(a, b)\<close> for one-character \<open>a\<close> and \<open>b\<close>.\<close>

definition replace_char :: "nat \<Rightarrow> nat \<Rightarrow> pystr \<Rightarrow> pystr" where
  "replace_char a b s = map (\<lambda>c. if c = a then b else c) s"


text \<open>The decimal text of a non-negative integer, as \<open>str(n)\<close> and f-strings give it.\<close>

fun decimal :: "nat \<Rightarrow> pystr" where
  "decimal n = (if n < 10 then [48 + n] else decimal (n div 10) @ [48 + n mod 10])"

declare decimal.simps [simp del]

subsection \<open>Exceptions\<close>

datatype pyexc =
    KeyError
  | IndexError
  | TypeError
  | AttributeError
  | JSONDecodeError
  | ValueError pystr
  | Exception pystr
  | RequestException pystr

text \<open>Sequencing: the second step runs on the value of the first unless that one raised.\<close>

definition then_do :: "pyexc + 'a \<Rightarrow> ('a \<Rightarrow> pyexc + 'b) \<Rightarrow> pyexc + 'b" where
  "then_do m f = (case m of Inl e \<Rightarrow> Inl e | Inr v \<Rightarrow> f v)"

subsection \<open>Parsed JSON\<close>

text \<open>
  The values \<open>json.loads\<close> builds: \<open>None\<close>, booleans, integers, floats, strings, lists
  and dicts with string keys. A dict keeps its insertion order, so it is an association
  list; a finite float is represented by the rational number it denotes.
\<close>

datatype json =
    JNull
  | JBool bool
  | JInt int
  | JFloat rat
  | JStr pystr
  | JList "json list"
  | JDict "(pystr \<times> json) list"

text \<open>\<open>isinstance(v, dict)\<close> and \<open>isinstance(v, list)\<close>.\<close>

fun is_dict :: "json \<Rightarrow> bool" where
  "is_dict (JDict kv) = True"
| "is_dict _ = False"

fun is_list :: "json \<Rightarrow> bool" where
  "is_list (JList xs) = True"
| "is_list _ = False"

text \<open>\<open>obj[key]\<close> with a string key: only a dict accepts it.\<close>

fun getitem :: "json \<Rightarrow> pystr \<Rightarrow> pyexc + json" where
  "getitem (JDict kv) k = (case map_of kv k of None \<Rightarrow> Inl KeyError | Some v \<Rightarrow> Inr v)"
| "getitem _ k = Inl TypeError"

text \<open>\<open>obj[0]\<close>. The keys of a parsed dict are strings, so \<open>0\<close> is never among them.\<close>

fun getitem0 :: "json \<Rightarrow> pyexc + json" where
  "getitem0 (JList []) = Inl IndexError"
| "getitem0 (JList (x # xs)) = Inr x"
| "getitem0 (JStr []) = Inl IndexError"
| "getitem0 (JStr (c # cs)) = Inr (JStr [c])"
| "getitem0 (JDict kv) = Inl KeyError"
| "getitem0 _ = Inl TypeError"

text \<open>\<open>key in obj\<close> for a string key.\<close>

fun contains :: "json \<Rightarrow> pystr \<Rightarrow> pyexc + bool" where
  "contains (JDict kv) k = Inr (k \<in> fst ` set kv)"
| "contains (JList xs) k = Inr (JStr k \<in> set xs)"
| "contains (JStr s) k = Inr (sublist k s)"
| "contains _ k = Inl TypeError"

text \<open>\<open>obj[key] = v\<close> with a string key: a new key goes to the end of the dict.\<close>

fun setitem :: "json \<Rightarrow> pystr \<Rightarrow> json \<Rightarrow> pyexc + json" where
  "setitem (JDict kv) k v =
     Inr (JDict (if k \<in> fst ` set kv
                 then map (\<lambda>(k', v'). if k' = k then (k', v) else (k', v')) kv
                 else kv @ [(k, v)]))"
| "setitem _ k v = Inl TypeError"

text \<open>\<open>for x in obj\<close>: the items a loop visits.\<close>

fun iterate :: "json \<Rightarrow> pyexc + json list" where
  "iterate (JList xs) = Inr xs"
| "iterate (JDict kv) = Inr (map (\<lambda>(k, v). JStr k) kv)"
| "iterate (JStr s) = Inr (map (\<lambda>c. JStr [c]) s)"
| "iterate _ = Inl TypeError"


text \<open>Truth value of an object, as \<open>if obj:\<close> tests it.\<close>

fun truthy :: "json \<Rightarrow> bool" where
  "truthy JNull = False"
| "truthy (JBool b) = b"
| "truthy (JInt i) = (i \<noteq> 0)"
| "truthy (JFloat r) = (r \<noteq> 0)"
| "truthy (JStr s) = (s \<noteq> [])"
| "truthy (JList xs) = (xs \<noteq> [])"
| "truthy (JDict kv) = (kv \<noteq> [])"

text \<open>
  An f-string field \<open>{v}\<close>: a string is inserted as it is; the text of any other value is
  what Python's \<open>format\<close> gives, taken as the parameter \<open>fmt\<close>.
\<close>

fun format_field :: "(json \<Rightarrow> pystr) \<Rightarrow> json \<Rightarrow> pystr" where
  "format_field fmt (JStr s) = s"
| "format_field fmt v = fmt v"

section \<open>The class \<open>FinancialDetective\<close>\<close>

subsection \<open>Construction\<close>

record detective =
  api_provider :: pystr
  api_key :: pystr
  api_url :: pystr
  model :: pystr
  max_retries :: nat

text \<open>
  \<open>__init__(api_provider, api_key)\<close>. \<open>lower\<close> and \<open>upper\<close> are Python's \<open>str.lower\<close>
  and \<open>str.upper\<close> (Unicode case mapping, taken as given); \<open>getenv\<close> is the process
  environment read by \<open>os.getenv\<close>. An \<open>api_key\<close> that is \<open>None\<close> or empty is falsy.
\<close>

definition init ::
  "(pystr \<Rightarrow> pystr) \<Rightarrow> (pystr \<Rightarrow> pystr) \<Rightarrow> (pystr \<Rightarrow> pystr option) \<Rightarrow>
   pystr \<Rightarrow> pystr option \<Rightarrow> pyexc + detective" where
  "init lower upper getenv provider key_arg =
     (let p = lower provider;
          key =
            (if key_arg \<noteq> None \<and> key_arg \<noteq> Some [] then Inr key_arg
             else if p = lit ''groq'' then Inr (getenv (lit ''GROQ_API_KEY''))
             else if p = lit ''openai'' then Inr (getenv (lit ''OPENAI_API_KEY''))
             else Inl (ValueError (lit ''Unknown API provider: '' @ provider)))
      in case key of
           Inl e \<Rightarrow> Inl e
         | Inr None \<Rightarrow> Inl (ValueError (upper p @ lit ''_API_KEY not found in environment''))
         | Inr (Some k) \<Rightarrow>
             if k = [] then Inl (ValueError (upper p @ lit ''_API_KEY not found in environment''))
             else if p = lit ''groq''
             then Inr \<lparr>api_provider = p, api_key = k,
                       api_url = lit ''https://api.groq.com/openai/v1/chat/completions'',
                       model = lit ''llama-3.3-70b-versatile'', max_retries = 3\<rparr>
             else Inr \<lparr>api_provider = p, api_key = k,
                       api_url = lit ''https://api.openai.com/v1/chat/completions'',
                       model = lit ''gpt-4o'', max_retries = 3\<rparr>)"

subsection \<open>The extraction prompt\<close>

text \<open>The f-string of \<open>_build_extraction_prompt\<close>: the text before and after \<open>{text}\<close>.\<close>

definition prompt_head :: pystr where
  \<open>prompt_head =
     concat
      [lit ''You are a financial data extraction expert. Extract entities and relationships from the following text from a Reliance Annual Report.'' @ [0xA],
       [0xA],
       lit ''EXTRACTION REQUIREMENTS:'' @ [0xA],
       lit ''1. ENTITIES to extract:'' @ [0xA],
       lit ''   - Company Names: All company names mentioned (e.g., "Reliance Retail", "Jio", "Hamleys")'' @ [0xA],
       lit ''   - Risk Factors: Any risk factors mentioned (e.g., "Market volatility", "Regulatory changes")'' @ [0xA],
       lit ''   - Dollar Amounts: Financial figures in USD, INR, or other currencies (e.g., "$1.5 billion", "'' @ [0x201A] @ [0xC7] @ [0x3C0] @ lit ''50,000 crores")'' @ [0xA],
       [0xA],
       lit ''2. RELATIONSHIPS to extract:'' @ [0xA],
       lit ''   - Ownership: "Company A OWNS Company B" (e.g., "Reliance Retail OWNS Hamleys")'' @ [0xA],
       lit ''   - Financial: "Company HAS Amount" (e.g., "Reliance Retail HAS $2.5 billion revenue")'' @ [0xA],
       lit ''   - Risk: "Company FACES RiskFactor" (e.g., "Reliance FACES Market volatility")'' @ [0xA],
       lit ''   - Partnership: "Company PARTNERS_WITH Company" (e.g., "Jio PARTNERS_WITH Google")'' @ [0xA],
       [0xA],
       lit ''OUTPUT FORMAT (strict JSON):'' @ [0xA],
       lit ''{'' @ [0xA],
       lit ''  "entities": ['' @ [0xA],
       lit ''    {'' @ [0xA],
       lit ''      "id": "unique_id_1",'' @ [0xA],
       lit ''      "type": "Company",'' @ [0xA],
       lit ''      "name": "Reliance Retail",'' @ [0xA],
       lit ''      "value": null,'' @ [0xA],
       lit ''      "metadata": {}'' @ [0xA],
       lit ''    },'' @ [0xA],
       lit ''    {'' @ [0xA],
       lit ''      "id": "unique_id_2",'' @ [0xA],
       lit ''      "type": "Amount",'' @ [0xA],
       lit ''      "name": "Revenue 2023",'' @ [0xA],
       lit ''      "value": "$2.5 billion",'' @ [0xA],
       lit ''      "metadata": {"currency": "USD", "year": 2023}'' @ [0xA],
       lit ''    },'' @ [0xA],
       lit ''    {'' @ [0xA],
       lit ''      "id": "unique_id_3",'' @ [0xA],
       lit ''      "type": "RiskFactor",'' @ [0xA],
       lit ''      "name": "Market volatility",'' @ [0xA],
       lit ''      "value": null,'' @ [0xA],
       lit ''      "metadata": {}'' @ [0xA],
       lit ''    }'' @ [0xA],
       lit ''  ],'' @ [0xA],
       lit ''  "relationships": ['' @ [0xA],
       lit ''    {'' @ [0xA],
       lit ''      "source": "unique_id_1",'' @ [0xA],
       lit ''      "target": "unique_id_4",'' @ [0xA],
       lit ''      "type": "OWNS",'' @ [0xA],
       lit ''      "metadata": {"year": 2023}'' @ [0xA],
       lit ''    },'' @ [0xA],
       lit ''    {'' @ [0xA],
       lit ''      "source": "unique_id_1",'' @ [0xA],
       lit ''      "target": "unique_id_2",'' @ [0xA],
       lit ''      "type": "HAS",'' @ [0xA],
       lit ''      "metadata": {}'' @ [0xA],
       lit ''    }'' @ [0xA],
       lit ''  ]'' @ [0xA],
       lit ''}'' @ [0xA],
       [0xA],
       lit ''RULES:'' @ [0xA],
       lit ''- Use unique IDs for each entity (e.g., "company_reliance_retail", "amount_revenue_2023")'' @ [0xA],
       lit ''- Extract ALL company names, risk factors, and dollar amounts mentioned'' @ [0xA],
       lit ''- Extract ALL relationships between entities'' @ [0xA],
       lit ''- Ensure JSON is valid and properly formatted'' @ [0xA],
       lit ''- Do not use regex - use your understanding of the text'' @ [0xA],
       [0xA],
       lit ''TEXT TO ANALYZE:'' @ [0xA],
       []]\<close>

definition prompt_tail :: pystr where
  \<open>prompt_tail =
     concat
      [[0xA],
       [0xA],
       lit ''Return ONLY the JSON object, no additional text or explanation.'']\<close>

definition build_extraction_prompt :: "detective \<Rightarrow> pystr \<Rightarrow> pystr" where
  "build_extraction_prompt self text = prompt_head @ text @ prompt_tail"

subsection \<open>Calling the completion service\<close>

text \<open>
  The clean-up of the response text in \<open>_call_llm\<close> (the normalizer of the
  specification): strip, drop a leading \<open>```json\<close>, drop a leading \<open>```\<close>, drop a
  trailing \<open>```\<close>, strip.
\<close>

definition clean_response :: "pystr \<Rightarrow> pystr" where
  "clean_response raw =
     (let content = strip raw;
          content = (if startswith content (lit ''```json'') then drop 7 content else content);
          content = (if startswith content (lit ''```'') then drop 3 content else content);
          content = (if endswith content (lit ''```'')
                     then take (length content - 3) content else content)
      in strip content)"

text \<open>
  The request built once per call, and what \<open>requests.post\<close> does with it: it raises,
  or it returns a response with a status code, a text and a body that \<open>response.json()\<close>
  decodes (\<open>None\<close> when decoding raises).
\<close>

record request =
  req_url :: pystr
  req_authorization :: pystr
  req_model :: pystr
  req_system :: pystr
  req_user :: pystr
  req_json_object :: bool

record response =
  status_code :: nat
  resp_text :: pystr
  resp_json :: "json option"

datatype post_result = PostRaises pyexc | PostReturns response

definition build_request :: "detective \<Rightarrow> pystr \<Rightarrow> request" where
  "build_request self prompt =
     \<lparr>req_url = api_url self,
      req_authorization = lit ''Bearer '' @ api_key self,
      req_model = model self,
      req_system =
        lit ''You are a financial data extraction expert. Always return valid JSON only.'',
      req_user = prompt,
      req_json_object = (api_provider self = lit ''openai'')\<rparr>"

text \<open>\<open>response.json()["choices"][0]["message"]["content"]\<close>, then the clean-up.\<close>

definition response_content :: "response \<Rightarrow> pyexc + pystr" where
  "response_content r =
     (case resp_json r of
        None \<Rightarrow> Inl JSONDecodeError
      | Some response_data \<Rightarrow>
          then_do (getitem response_data (lit ''choices'')) (\<lambda>choices.
          then_do (getitem0 choices) (\<lambda>choice.
          then_do (getitem choice (lit ''message'')) (\<lambda>message.
          then_do (getitem message (lit ''content'')) (\<lambda>content.
          case content of
            JStr s \<Rightarrow> Inr (clean_response s)
          | _ \<Rightarrow> Inl AttributeError)))))"

text \<open>
  What one pass through the loop body does: go on with the next attempt, return the
  content, or raise. The list holds the arguments of \<open>time.sleep\<close> so far.
\<close>

datatype flow = Continue | Return pystr | Raise pyexc

text \<open>The body of the \<open>try\<close> block.\<close>

definition try_block :: "nat \<Rightarrow> nat \<Rightarrow> post_result \<Rightarrow> nat list \<Rightarrow> flow \<times> nat list" where
  "try_block retries attempt res slept =
     (case res of
        PostRaises e \<Rightarrow> (Raise e, slept)
      | PostReturns r \<Rightarrow>
          if status_code r = 429 then (Continue, slept @ [2 ^ attempt * 2])
          else if status_code r \<noteq> 200 then
            (if int attempt < int retries - 1 then (Continue, slept @ [2 ^ attempt])
             else (Raise (Exception (lit ''API error '' @ decimal (status_code r) @ lit '': ''
                                      @ resp_text r)), slept))
          else (case response_content r of
                  Inl e \<Rightarrow> (Raise e, slept)
                | Inr content \<Rightarrow> (Return content, slept)))"

text \<open>The \<open>try\<close> block with its \<open>except Exception\<close> handler.\<close>

definition attempt_once :: "nat \<Rightarrow> nat \<Rightarrow> post_result \<Rightarrow> nat list \<Rightarrow> flow \<times> nat list" where
  "attempt_once retries attempt res slept =
     (case try_block retries attempt res slept of
        (Raise e, slept') \<Rightarrow>
          if int attempt < int retries - 1 then (Continue, slept' @ [2 ^ attempt])
          else (Raise e, slept')
      | other \<Rightarrow> other)"

text \<open>
  The state a call leaves behind: how many requests were posted and the sleeps made.
  \<open>post n req\<close> is the outcome of the \<open>n\<close>-th request (counted from 0).
\<close>

record effects =
  posted :: nat
  slept :: "nat list"

text \<open>
  \<open>for attempt in range(self.max_retries)\<close>. When the loop runs out the function ends
  without a \<open>return\<close>, which in Python returns \<open>None\<close>.
\<close>

fun attempts :: "nat \<Rightarrow> (nat \<Rightarrow> request \<Rightarrow> post_result) \<Rightarrow> request \<Rightarrow> nat list \<Rightarrow> effects \<Rightarrow>
                 (pyexc + pystr option) \<times> effects" where
  "attempts retries post req [] st = (Inr None, st)"
| "attempts retries post req (attempt # rest) st =
     (let res = post (posted st) req;
          st = st\<lparr>posted := posted st + 1\<rparr>
      in case attempt_once retries attempt res (slept st) of
           (Continue, sl) \<Rightarrow> attempts retries post req rest (st\<lparr>slept := sl\<rparr>)
         | (Return content, sl) \<Rightarrow> (Inr (Some content), st\<lparr>slept := sl\<rparr>)
         | (Raise e, sl) \<Rightarrow> (Inl e, st\<lparr>slept := sl\<rparr>))"

definition call_llm ::
  "detective \<Rightarrow> (nat \<Rightarrow> request \<Rightarrow> post_result) \<Rightarrow> pystr \<Rightarrow> (pyexc + pystr option) \<times> effects" where
  "call_llm self post prompt =
     attempts (max_retries self) post (build_request self prompt) [0..<max_retries self]
       \<lparr>posted = 0, slept = []\<rparr>"

subsection \<open>Validation and shallow repair\<close>

text \<open>
  \<open>_validate_json_schema\<close>. The body of the loop over the entities, and of the loop over
  the relationships: \<open>Inr False\<close> is the early \<open>return False\<close>, \<open>Inr True\<close> goes on.
\<close>

definition check_entity :: "json \<Rightarrow> pyexc + bool" where
  "check_entity entity =
     (if \<not> is_dict entity then Inr False
      else
        then_do (contains entity (lit ''id'')) (\<lambda>has_id.
        if \<not> has_id then Inr False
        else
          then_do (contains entity (lit ''type'')) (\<lambda>has_type.
          if \<not> has_type then Inr False
          else
            then_do (contains entity (lit ''name'')) (\<lambda>has_name.
            if \<not> has_name then Inr False
            else
              then_do (getitem entity (lit ''type'')) (\<lambda>t.
              if t \<notin> set [JStr (lit ''Company''), JStr (lit ''RiskFactor''),
                            JStr (lit ''Amount'')]
              then Inr False
              else Inr True)))))"

definition check_relationship :: "json \<Rightarrow> pyexc + bool" where
  "check_relationship rel =
     (if \<not> is_dict rel then Inr False
      else
        then_do (contains rel (lit ''source'')) (\<lambda>has_source.
        if \<not> has_source then Inr False
        else
          then_do (contains rel (lit ''target'')) (\<lambda>has_target.
          if \<not> has_target then Inr False
          else
            then_do (contains rel (lit ''type'')) (\<lambda>has_type.
            if \<not> has_type then Inr False
            else Inr True))))"

fun check_all :: "(json \<Rightarrow> pyexc + bool) \<Rightarrow> json list \<Rightarrow> pyexc + bool" where
  "check_all check [] = Inr True"
| "check_all check (x # xs) =
     then_do (check x) (\<lambda>ok. if ok then check_all check xs else Inr False)"

definition validate_json_schema :: "json \<Rightarrow> pyexc + bool" where
  "validate_json_schema data =
     (if \<not> is_dict data then Inr False
      else
        then_do (contains data (lit ''entities'')) (\<lambda>has_entities.
        if \<not> has_entities then Inr False
        else
          then_do (contains data (lit ''relationships'')) (\<lambda>has_relationships.
          if \<not> has_relationships then Inr False
          else
            then_do (getitem data (lit ''entities'')) (\<lambda>ents.
            if \<not> is_list ents then Inr False
            else
              then_do (getitem data (lit ''relationships'')) (\<lambda>rels.
              if \<not> is_list rels then Inr False
              else
                then_do (iterate ents) (\<lambda>es.
                then_do (check_all check_entity es) (\<lambda>ok.
                if \<not> ok then Inr False
                else
                  then_do (iterate rels) (\<lambda>rs.
                  check_all check_relationship rs))))))))"

text \<open>
  The validity of a graph in the words of the specification: a keyed record with
  \<open>entities\<close> and \<open>relationships\<close>, both sequences; every entity a record with \<open>id\<close>,
  \<open>type\<close> (one of the three kinds) and \<open>name\<close>; every relationship a record with
  \<open>source\<close>, \<open>target\<close> and \<open>type\<close>.
\<close>

definition entity_kinds :: "pystr list" where
  "entity_kinds = [lit ''Company'', lit ''RiskFactor'', lit ''Amount'']"

fun spec_entity :: "json \<Rightarrow> bool" where
  "spec_entity (JDict kv) =
     (map_of kv (lit ''id'') \<noteq> None \<and> map_of kv (lit ''name'') \<noteq> None \<and>
      (case map_of kv (lit ''type'') of Some (JStr t) \<Rightarrow> t \<in> set entity_kinds | _ \<Rightarrow> False))"
| "spec_entity _ = False"

fun spec_relationship :: "json \<Rightarrow> bool" where
  "spec_relationship (JDict kv) =
     (map_of kv (lit ''source'') \<noteq> None \<and> map_of kv (lit ''target'') \<noteq> None \<and>
      map_of kv (lit ''type'') \<noteq> None)"
| "spec_relationship _ = False"

fun spec_valid :: "json \<Rightarrow> bool" where
  "spec_valid (JDict kv) =
     (case (map_of kv (lit ''entities''), map_of kv (lit ''relationships'')) of
        (Some (JList es), Some (JList rs)) \<Rightarrow>
          list_all spec_entity es \<and> list_all spec_relationship rs
      | _ \<Rightarrow> False)"
| "spec_valid _ = False"

text \<open>
  The validation step of \<open>extract_knowledge_graph\<close> with its repair: when the check
  fails, a missing \<open>entities\<close> and a missing \<open>relationships\<close> are set to \<open>[]\<close>.
\<close>

definition default_key :: "pystr \<Rightarrow> json \<Rightarrow> pyexc + json" where
  "default_key k graph_data =
     then_do (contains graph_data k) (\<lambda>present.
     if \<not> present then setitem graph_data k (JList []) else Inr graph_data)"

definition shallow_repair :: "json \<Rightarrow> pyexc + json" where
  "shallow_repair graph_data =
     then_do (default_key (lit ''entities'') graph_data)
       (default_key (lit ''relationships''))"

definition validate_and_repair :: "json \<Rightarrow> pyexc + json" where
  "validate_and_repair graph_data =
     then_do (validate_json_schema graph_data) (\<lambda>ok.
     if \<not> ok then shallow_repair graph_data else Inr graph_data)"

subsection \<open>The diagram renderer: building the graph\<close>

text \<open>
  Dict keys and graph nodes are compared by hash and equality: \<open>True\<close>, \<open>1\<close> and \<open>1.0\<close>
  are one key, lists and dicts are unhashable.
\<close>

datatype key = KNone | KNum rat | KStr pystr

fun hash_key :: "json \<Rightarrow> pyexc + key" where
  "hash_key JNull = Inr KNone"
| "hash_key (JBool b) = Inr (KNum (if b then 1 else 0))"
| "hash_key (JInt i) = Inr (KNum (of_int i))"
| "hash_key (JFloat r) = Inr (KNum r)"
| "hash_key (JStr s) = Inr (KStr s)"
| "hash_key (JList xs) = Inl TypeError"
| "hash_key (JDict kv) = Inl TypeError"

text \<open>\<open>d[k] = v\<close> on a dict kept in insertion order.\<close>

definition upsert :: "'k \<Rightarrow> 'v \<Rightarrow> ('k \<times> 'v) list \<Rightarrow> ('k \<times> 'v) list" where
  "upsert k v kvs =
     (if k \<in> fst ` set kvs
      then map (\<lambda>(k', v'). if k' = k then (k', v) else (k', v')) kvs
      else kvs @ [(k, v)])"

text \<open>\<open>entity.get("value")\<close>.\<close>

fun dict_get :: "json \<Rightarrow> pystr \<Rightarrow> pyexc + json" where
  "dict_get (JDict kv) k = Inr (case map_of kv k of None \<Rightarrow> JNull | Some v \<Rightarrow> v)"
| "dict_get _ k = Inl AttributeError"

text \<open>\<open>obj += s\<close> for a string \<open>s\<close>: a string is extended, a list receives the characters.\<close>

fun iadd_str :: "json \<Rightarrow> pystr \<Rightarrow> pyexc + json" where
  "iadd_str (JStr a) s = Inr (JStr (a @ s))"
| "iadd_str (JList xs) s = Inr (JList (xs @ map (\<lambda>c. JStr [c]) s))"
| "iadd_str _ s = Inl TypeError"

text \<open>
  The part of \<open>networkx.DiGraph\<close> the renderer uses: nodes and directed edges with their
  attributes, in insertion order. A node that \<open>add_edge\<close> had to create has no attributes.
\<close>

record node_attrs =
  node_label :: json
  node_type :: json
  node_name :: json

record digraph =
  nodes :: "(key \<times> node_attrs option) list"
  edges :: "((key \<times> key) \<times> json) list"

definition add_node :: "key \<Rightarrow> node_attrs \<Rightarrow> digraph \<Rightarrow> pyexc + digraph" where
  "add_node n attrs G =
     (if n \<notin> fst ` set (nodes G) \<and> n = KNone
      then Inl (ValueError (lit ''None cannot be a node''))
      else Inr (G\<lparr>nodes := upsert n (Some attrs) (nodes G)\<rparr>))"

definition ensure_node :: "key \<Rightarrow> digraph \<Rightarrow> pyexc + digraph" where
  "ensure_node n G =
     (if n \<in> fst ` set (nodes G) then Inr G
      else if n = KNone then Inl (ValueError (lit ''None cannot be a node''))
      else Inr (G\<lparr>nodes := nodes G @ [(n, None)]\<rparr>))"

definition add_edge :: "key \<Rightarrow> key \<Rightarrow> json \<Rightarrow> digraph \<Rightarrow> pyexc + digraph" where
  "add_edge u v rel_type G =
     then_do (ensure_node u G) (\<lambda>G.
     then_do (ensure_node v G) (\<lambda>G.
     Inr (G\<lparr>edges := upsert (u, v) rel_type (edges G)\<rparr>)))"

text \<open>A \<open>for\<close> loop whose body updates a state and may raise.\<close>

fun for_each :: "('a \<Rightarrow> 's \<Rightarrow> pyexc + 's) \<Rightarrow> 'a list \<Rightarrow> 's \<Rightarrow> pyexc + 's" where
  "for_each body [] s = Inr s"
| "for_each body (x # xs) s = then_do (body x s) (for_each body xs)"

text \<open>
  \<open>node_label += s\<close>, where the label was read from \<open>entity["name"]\<close>: a string label
  becomes a new string; a list label is the very list stored under \<open>name\<close> and is
  extended in place, so the entity changes with it.
\<close>

definition extend_label :: "json \<Rightarrow> json \<Rightarrow> pystr \<Rightarrow> pyexc + json \<times> json" where
  "extend_label entity label s =
     then_do (iadd_str label s) (\<lambda>label'.
     if is_list label
     then then_do (setitem entity (lit ''name'') label') (\<lambda>entity'. Inr (label', entity'))
     else Inr (label', entity))"

text \<open>The body of the loop over the entities of \<open>visualize_graph\<close>.\<close>

definition add_entity ::
  "(json \<Rightarrow> pystr) \<Rightarrow> json \<Rightarrow> (key \<times> json) list \<times> digraph \<Rightarrow>
   pyexc + (key \<times> json) list \<times> digraph" where
  "add_entity fmt entity st =
     (case st of (entity_map, G) \<Rightarrow>
        then_do (getitem entity (lit ''id'')) (\<lambda>entity_id.
        then_do (hash_key entity_id) (\<lambda>k.
        then_do (getitem entity (lit ''name'')) (\<lambda>label.
        then_do (dict_get entity (lit ''value'')) (\<lambda>v.
        then_do (if truthy v
                 then then_do (getitem entity (lit ''value'')) (\<lambda>v.
                      extend_label entity label
                        ([0xA] @ lit ''('' @ format_field fmt v @ lit '')''))
                 else Inr (label, entity)) (\<lambda>labelled.
        case labelled of (label, entity) \<Rightarrow>
          then_do (getitem entity (lit ''type'')) (\<lambda>t.
          then_do (getitem entity (lit ''name'')) (\<lambda>name.
          then_do (add_node k \<lparr>node_label = label, node_type = t, node_name = name\<rparr> G) (\<lambda>G.
          Inr (upsert k entity entity_map, G))))))))))"

text \<open>
  The body of the loop over the relationships: the edge is added only when both ends
  are keys of \<open>entity_map\<close>; \<open>and\<close> looks at the target only when the source is one.
\<close>

definition add_relationship :: "(key \<times> json) list \<Rightarrow> json \<Rightarrow> digraph \<Rightarrow> pyexc + digraph" where
  "add_relationship entity_map rel G =
     then_do (getitem rel (lit ''source'')) (\<lambda>source.
     then_do (getitem rel (lit ''target'')) (\<lambda>target.
     then_do (hash_key source) (\<lambda>u.
     if u \<notin> fst ` set entity_map then Inr G
     else
       then_do (hash_key target) (\<lambda>v.
       if v \<notin> fst ` set entity_map then Inr G
       else
         then_do (getitem rel (lit ''type'')) (\<lambda>t.
         add_edge u v t G)))))"

text \<open>
  \<open>visualize_graph\<close> up to the finished graph \<open>G\<close> together with \<open>entity_map\<close>. The
  layout and the drawing that follow are networkx and matplotlib calls on \<open>G\<close> alone.
\<close>

definition visualize_graph ::
  "(json \<Rightarrow> pystr) \<Rightarrow> json \<Rightarrow> pyexc + (key \<times> json) list \<times> digraph" where
  "visualize_graph fmt graph_data =
     then_do (getitem graph_data (lit ''entities'')) (\<lambda>ents.
     then_do (iterate ents) (\<lambda>es.
     then_do (for_each (add_entity fmt) es ([], \<lparr>nodes = [], edges = []\<rparr>)) (\<lambda>st.
     case st of (entity_map, G) \<Rightarrow>
       then_do (getitem graph_data (lit ''relationships'')) (\<lambda>rels.
       then_do (iterate rels) (\<lambda>rs.
       then_do (for_each (add_relationship entity_map) rs G) (\<lambda>G.
       Inr (entity_map, G)))))))"

subsection \<open>The flow-chart text renderer\<close>

text \<open>\<open>v.replace(" ", "_").replace("-", "_")\<close>: only a string has \<open>replace\<close>.\<close>

definition sanitize :: "pystr \<Rightarrow> pystr" where
  "sanitize s = replace_char 0x2D 0x5F (replace_char 0x20 0x5F s)"

fun sanitized :: "json \<Rightarrow> pyexc + pystr" where
  "sanitized (JStr s) = Inr (sanitize s)"
| "sanitized _ = Inl AttributeError"

definition style_of :: "json \<Rightarrow> pystr" where
  "style_of entity_type =
     (if entity_type = JStr (lit ''Company'')
      then lit ''fill:#4A90E2,stroke:#333,stroke-width:2px''
      else if entity_type = JStr (lit ''RiskFactor'')
      then lit ''fill:#E24A4A,stroke:#333,stroke-width:2px''
      else if entity_type = JStr (lit ''Amount'')
      then lit ''fill:#4AE24A,stroke:#333,stroke-width:2px''
      else lit ''fill:#E2E24A,stroke:#333,stroke-width:2px'')"

definition node_line :: "pystr \<Rightarrow> pystr \<Rightarrow> pystr" where
  \<open>node_line entity_id name = lit ''    '' @ entity_id @ lit ''["'' @ name @ lit ''"]''\<close>

definition style_line :: "pystr \<Rightarrow> pystr \<Rightarrow> pystr" where
  "style_line entity_id style = lit ''    style '' @ entity_id @ lit '' '' @ style"

definition edge_line :: "pystr \<Rightarrow> pystr \<Rightarrow> pystr \<Rightarrow> pystr" where
  "edge_line source rel_type target =
     lit ''    '' @ source @ lit '' -->|'' @ rel_type @ lit ''| '' @ target"

text \<open>The bodies of the two loops of \<open>generate_mermaid_chart\<close>.\<close>

definition entity_lines :: "(json \<Rightarrow> pystr) \<Rightarrow> json \<Rightarrow> pystr list \<Rightarrow> pyexc + pystr list" where
  "entity_lines fmt entity mermaid_lines =
     then_do (getitem entity (lit ''id'')) (\<lambda>i.
     then_do (sanitized i) (\<lambda>entity_id.
     then_do (getitem entity (lit ''name'')) (\<lambda>name.
     then_do (getitem entity (lit ''type'')) (\<lambda>entity_type.
     Inr (mermaid_lines @
          [node_line entity_id (format_field fmt name),
           style_line entity_id (style_of entity_type)])))))"

definition relationship_line ::
  "(json \<Rightarrow> pystr) \<Rightarrow> json \<Rightarrow> pystr list \<Rightarrow> pyexc + pystr list" where
  "relationship_line fmt rel mermaid_lines =
     then_do (getitem rel (lit ''source'')) (\<lambda>s.
     then_do (sanitized s) (\<lambda>source.
     then_do (getitem rel (lit ''target'')) (\<lambda>t.
     then_do (sanitized t) (\<lambda>target.
     then_do (getitem rel (lit ''type'')) (\<lambda>rel_type.
     Inr (mermaid_lines @ [edge_line source (format_field fmt rel_type) target]))))))"

definition mermaid_lines :: "(json \<Rightarrow> pystr) \<Rightarrow> json \<Rightarrow> pyexc + pystr list" where
  "mermaid_lines fmt graph_data =
     then_do (getitem graph_data (lit ''entities'')) (\<lambda>ents.
     then_do (iterate ents) (\<lambda>es.
     then_do (for_each (entity_lines fmt) es [lit ''graph TD'']) (\<lambda>ls.
     then_do (getitem graph_data (lit ''relationships'')) (\<lambda>rels.
     then_do (iterate rels) (\<lambda>rs.
     for_each (relationship_line fmt) rs ls)))))"



subsection \<open>What the renderers are expected to emit\<close>

text \<open>The items of a top-level sequence of the graph, as a loop over it visits them.\<close>

definition items :: "json \<Rightarrow> pystr \<Rightarrow> pyexc + json list" where
  "items graph_data k = then_do (getitem graph_data k) iterate"



text \<open>The keys of the entities' ids, for the entities that have a hashable one.\<close>

fun entity_keys :: "json list \<Rightarrow> key list" where
  "entity_keys [] = []"
| "entity_keys (e # es) =
     (case then_do (getitem e (lit ''id'')) hash_key of
        Inr k \<Rightarrow> k # entity_keys es
      | Inl err \<Rightarrow> entity_keys es)"

text \<open>
  A dangling relationship: a record with a \<open>source\<close> and a \<open>target\<close> of which the source
  is a scalar that is no entity id, or the source is one and the target is a scalar that
  is none.
\<close>

definition dangling :: "key list \<Rightarrow> json \<Rightarrow> bool" where
  "dangling ids rel =
     (case (getitem rel (lit ''source''), getitem rel (lit ''target'')) of
        (Inr source, Inr target) \<Rightarrow>
          (case hash_key source of
             Inr u \<Rightarrow>
               u \<notin> set ids \<or>
               (case hash_key target of Inr v \<Rightarrow> v \<notin> set ids | Inl err \<Rightarrow> False)
           | Inl err \<Rightarrow> False)
      | _ \<Rightarrow> False)"

text \<open>Every edge of the graph joins two of the given keys.\<close>

definition edges_within :: "key set \<Rightarrow> digraph \<Rightarrow> bool" where
  "edges_within ks G \<longleftrightarrow> (\<forall>e \<in> set (edges G). fst (fst e) \<in> ks \<and> snd (fst e) \<in> ks)"

subsection \<open>Sample graphs\<close>

text \<open>The valid graph of \<open>test_schema_validation\<close>.\<close>

definition test_graph :: json where
  "test_graph =
     JDict [(lit ''entities'',
             JList [JDict [(lit ''id'', JStr (lit ''company_1'')),
                           (lit ''type'', JStr (lit ''Company'')),
                           (lit ''name'', JStr (lit ''Reliance Retail'')),
                           (lit ''value'', JNull),
                           (lit ''metadata'', JDict [])],
                    JDict [(lit ''id'', JStr (lit ''amount_1'')),
                           (lit ''type'', JStr (lit ''Amount'')),
                           (lit ''name'', JStr (lit ''Revenue'')),
                           (lit ''value'', JStr (lit ''$32.5 billion'')),
                           (lit ''metadata'', JDict [(lit ''currency'', JStr (lit ''USD''))])]]),
            (lit ''relationships'',
             JList [JDict [(lit ''source'', JStr (lit ''company_1'')),
                           (lit ''target'', JStr (lit ''amount_1'')),
                           (lit ''type'', JStr (lit ''HAS'')),
                           (lit ''metadata'', JDict [])]])]"



text \<open>One entity and a relationship whose target is no entity.\<close>

definition dangling_graph :: json where
  "dangling_graph =
     JDict [(lit ''entities'',
             JList [JDict [(lit ''id'', JStr (lit ''c1'')),
                           (lit ''type'', JStr (lit ''Company'')),
                           (lit ''name'', JStr (lit ''Jio''))]]),
            (lit ''relationships'',
             JList [JDict [(lit ''source'', JStr (lit ''c1'')),
                           (lit ''target'', JStr (lit ''ghost'')),
                           (lit ''type'', JStr (lit ''OWNS''))]])]"

text \<open>The entry the repair appends for a top-level key that is absent.\<close>

definition missing :: "pystr \<Rightarrow> (pystr \<times> json) list \<Rightarrow> (pystr \<times> json) list" where
  "missing k kv = (if map_of kv k = None then [(k, JList [])] else [])"

section \<open>Properties\<close>

subsection \<open>Evaluation on concrete inputs\<close>


subsection \<open>The response clean-up\<close>









lemma length_lit [simp]: "length (lit cs) = length cs"
  by (simp add: lit_def)







subsection \<open>Retries of the completion client\<close>

lemma range_3: "[0..<3] = [0, 1, 2]"
  by (simp add: numeral_3_eq_3 numeral_2_eq_2)

text \<open>
  C1. Against a service that answers every request with status 429 the client posts
  three requests and sleeps 2, 4 and 8 seconds, as claimed. After the third sleep the
  loop is exhausted and the function ends without raising: the caller receives \<open>None\<close>,
  not an error.
\<close>

theorem call_llm_rate_limited:
  "call_llm (self\<lparr>max_retries := 3\<rparr>)
     (\<lambda>n req. PostReturns \<lparr>status_code = 429, resp_text = t, resp_json = b\<rparr>) prompt
   = (Inr None, \<lparr>posted = 3, slept = [2, 4, 8]\<rparr>)"
  by (simp add: call_llm_def range_3 Let_def attempt_once_def try_block_def)

text \<open>
  The sibling path for any other failing status: after the last attempt the error is
  raised to the caller.
\<close>

lemma call_llm_server_error:
  "call_llm (self\<lparr>max_retries := 3\<rparr>)
     (\<lambda>n req. PostReturns \<lparr>status_code = 500, resp_text = t, resp_json = b\<rparr>) prompt
   = (Inl (Exception (lit ''API error '' @ decimal 500 @ lit '': '' @ t)),
      \<lparr>posted = 3, slept = [1, 2]\<rparr>)"
  by (simp add: call_llm_def range_3 Let_def attempt_once_def try_block_def)

subsection \<open>The prompt builder\<close>

text \<open>
  C7. The prompt depends on the document text alone, not on the state of the object,
  and the document text occurs in it verbatim.
\<close>

theorem build_extraction_prompt_pure:
  "build_extraction_prompt self d = build_extraction_prompt self' d \<and>
   sublist d (build_extraction_prompt self d)"
  by (simp add: build_extraction_prompt_def sublist_appendI)

subsection \<open>Construction\<close>

text \<open>
  C9. With a non-empty \<open>api_key\<close> argument the constructor succeeds for every provider
  string, and every provider that does not lowercase to \<open>groq\<close> gets the OpenAI endpoint
  and model. The constructor raises only when the argument is \<open>None\<close> or empty.
\<close>

theorem init_with_key:
  "(k \<noteq> [] \<longrightarrow>
      init lower upper getenv provider (Some k) =
        Inr \<lparr>api_provider = lower provider, api_key = k,
             api_url = (if lower provider = lit ''groq''
                        then lit ''https://api.groq.com/openai/v1/chat/completions''
                        else lit ''https://api.openai.com/v1/chat/completions''),
             model = (if lower provider = lit ''groq''
                      then lit ''llama-3.3-70b-versatile'' else lit ''gpt-4o''),
             max_retries = 3\<rparr>) \<and>
   (init lower upper getenv provider key_arg = Inl e \<longrightarrow> key_arg = None \<or> key_arg = Some [])"
  by (cases key_arg) (auto simp: init_def Let_def)

theorem init_with_key_witness:
  "lit ''test_key'' \<noteq> [] \<and>
   init id id (\<lambda>v. None) (lit ''azure'') (Some (lit ''test_key'')) =
     Inr \<lparr>api_provider = lit ''azure'', api_key = lit ''test_key'',
          api_url = lit ''https://api.openai.com/v1/chat/completions'',
          model = lit ''gpt-4o'', max_retries = 3\<rparr> \<and>
   init id id (\<lambda>v. None) (lit ''azure'') None
     = Inl (ValueError (lit ''Unknown API provider: azure''))"
proof -
  have k: "lit ''test_key'' \<noteq> []" by (simp add: lit_def)
  have g: "id (lit ''azure'') \<noteq> lit ''groq''" by (simp add: lit_def)
  have u: "init id id (\<lambda>v. None) (lit ''azure'') None
     = Inl (ValueError (lit ''Unknown API provider: azure''))"
    by (simp add: init_def Let_def lit_def)
  from init_with_key [of "lit ''test_key''" id id "\<lambda>v. None" "lit ''azure''" None
         "ValueError (lit ''Unknown API provider: azure'')"] k g u
  show ?thesis by simp
qed

subsection \<open>Validation\<close>

lemma then_do_Inr [simp]: "then_do (Inr v) f = f v"
  by (simp add: then_do_def)

lemma then_do_Inl [simp]: "then_do (Inl e) f = Inl e"
  by (simp add: then_do_def)

lemma then_do_eq_Inr: "then_do m f = Inr y \<longleftrightarrow> (\<exists>v. m = Inr v \<and> f v = Inr y)"
  by (cases m) simp_all

lemma key_in_dict: "k \<in> fst ` set kv \<longleftrightarrow> map_of kv k \<noteq> None"
  by (simp add: map_of_eq_None_iff)

lemma check_entity_spec: "check_entity e = Inr (spec_entity e)"
proof (cases e)
  case (JDict kv)
  show ?thesis
  proof (cases "map_of kv (lit ''type'')")
    case None
    with JDict show ?thesis by (simp add: check_entity_def key_in_dict)
  next
    case (Some t)
    with JDict show ?thesis
      by (cases t) (auto simp: check_entity_def key_in_dict entity_kinds_def)
  qed
qed (simp_all add: check_entity_def)

lemma check_relationship_spec: "check_relationship r = Inr (spec_relationship r)"
  by (cases r) (auto simp: check_relationship_def key_in_dict)

lemma check_all_spec:
  assumes "\<And>x. check x = Inr (p x)"
  shows "check_all check xs = Inr (list_all p xs)"
  by (induction xs) (simp_all add: assms)

lemma validate_json_schema_eq: "validate_json_schema data = Inr (spec_valid data)"
proof (cases data)
  case (JDict kv)
  show ?thesis
  proof (cases "map_of kv (lit ''entities'')")
    case None
    with JDict show ?thesis by (simp add: validate_json_schema_def key_in_dict)
  next
    case e: (Some ents)
    show ?thesis
    proof (cases "map_of kv (lit ''relationships'')")
      case None
      with JDict e show ?thesis
        by (cases ents) (simp_all add: validate_json_schema_def key_in_dict)
    next
      case r: (Some rels)
      have ce: "\<And>es. check_all check_entity es = Inr (list_all spec_entity es)"
        by (rule check_all_spec) (rule check_entity_spec)
      have cr: "\<And>rs. check_all check_relationship rs = Inr (list_all spec_relationship rs)"
        by (rule check_all_spec) (rule check_relationship_spec)
      from JDict e r show ?thesis
        by (cases ents; cases rels) (simp_all add: validate_json_schema_def key_in_dict ce cr)
    qed
  qed
qed (simp_all add: validate_json_schema_def)

lemma spec_valid_test_graph: "spec_valid test_graph"
  by (simp add: test_graph_def lit_def entity_kinds_def)

text \<open>
  C2. For every parsed value the validator returns a boolean and does not raise, and it
  returns true exactly for the graphs the specification calls valid. The function only
  reads its argument: no statement of it stores into \<open>data\<close>.
\<close>

theorem validate_json_schema_spec:
  "(\<exists>b. validate_json_schema data = Inr b) \<and>
   (validate_json_schema data = Inr True \<longleftrightarrow> spec_valid data)"
  by (simp add: validate_json_schema_eq)

theorem validate_json_schema_spec_witness:
  "validate_json_schema test_graph = Inr True \<and>
   validate_json_schema (JDict [(lit ''entities'', JList [])]) \<noteq> Inr True"
proof -
  have "\<not> spec_valid (JDict [(lit ''entities'', JList [])])" by (simp add: lit_def)
  then show ?thesis
    using spec_valid_test_graph validate_json_schema_spec [of test_graph]
      validate_json_schema_spec [of "JDict [(lit ''entities'', JList [])]"]
    by simp
qed

subsection \<open>Shallow repair\<close>

lemma default_key_dict: "default_key k (JDict kv) = Inr (JDict (kv @ missing k kv))"
  by (auto simp: default_key_def missing_def key_in_dict)

lemma spec_valid_keys:
  "spec_valid (JDict kv) \<Longrightarrow>
     map_of kv (lit ''entities'') \<noteq> None \<and> map_of kv (lit ''relationships'') \<noteq> None"
  by (auto split: option.splits json.splits)

lemma default_key_non_dict:
  assumes "\<not> is_dict g" and "default_key k g = Inr g'"
  shows "g' = g"
  using assms by (cases g) (auto simp: default_key_def then_do_eq_Inr split: if_splits)

lemma validate_and_repair_non_dict:
  assumes "\<not> is_dict g" and "validate_and_repair g = Inr g'"
  shows "g' = g"
proof -
  from assms(2) consider "g' = g" | "shallow_repair g = Inr g'"
    by (auto simp: validate_and_repair_def then_do_eq_Inr split: if_splits)
  then show ?thesis
  proof cases
    case 1
    then show ?thesis .
  next
    case 2
    then obtain g1 where 1: "default_key (lit ''entities'') g = Inr g1"
      and 2: "default_key (lit ''relationships'') g1 = Inr g'"
      by (auto simp: shallow_repair_def then_do_eq_Inr)
    from default_key_non_dict [OF assms(1) 1] have "g1 = g" .
    with 2 default_key_non_dict [OF assms(1)] show ?thesis by simp
  qed
qed

text \<open>
  C4. On a dict the validation step with its repair appends \<open>entities: []\<close> when that key
  is absent and \<open>relationships: []\<close> when that key is absent, and leaves every entry
  that was there as it was; on a valid graph it changes nothing. A parsed value that is
  no dict is never changed: the step returns it as it is or raises.
\<close>

theorem validate_and_repair_shallow:
  "(spec_valid g \<longrightarrow> validate_and_repair g = Inr g) \<and>
   validate_and_repair (JDict kv) =
     Inr (JDict (kv @ missing (lit ''entities'') kv @ missing (lit ''relationships'') kv)) \<and>
   (\<not> is_dict h \<and> validate_and_repair h = Inr h' \<longrightarrow> h' = h)"
proof (intro conjI)
  show "spec_valid g \<longrightarrow> validate_and_repair g = Inr g"
    by (simp add: validate_and_repair_def validate_json_schema_eq)
next
  show "\<not> is_dict h \<and> validate_and_repair h = Inr h' \<longrightarrow> h' = h"
    using validate_and_repair_non_dict by blast
next
  have ne: "lit ''relationships'' \<noteq> lit ''entities''" by (simp add: lit_def)
  show "validate_and_repair (JDict kv) =
     Inr (JDict (kv @ missing (lit ''entities'') kv @ missing (lit ''relationships'') kv))"
  proof (cases "spec_valid (JDict kv)")
    case True
    from spec_valid_keys [OF True] have "missing (lit ''entities'') kv = []"
      "missing (lit ''relationships'') kv = []" by (simp_all add: missing_def)
    with True show ?thesis
      by (simp add: validate_and_repair_def validate_json_schema_eq)
  next
    case False
    have "missing (lit ''relationships'') (kv @ missing (lit ''entities'') kv)
            = missing (lit ''relationships'') kv"
      using ne by (auto simp: missing_def map_add_def split: option.splits)
    with False show ?thesis
      by (simp add: validate_and_repair_def validate_json_schema_eq shallow_repair_def
            default_key_dict)
  qed
qed

theorem validate_and_repair_shallow_witness:
  "spec_valid test_graph \<and> validate_and_repair test_graph = Inr test_graph \<and>
   validate_and_repair (JDict [(lit ''entities'', JList [JInt 5])]) =
     Inr (JDict [(lit ''entities'', JList [JInt 5]), (lit ''relationships'', JList [])]) \<and>
   \<not> is_dict (JList [JStr (lit ''entities''), JStr (lit ''relationships'')]) \<and>
   validate_and_repair (JList [JStr (lit ''entities''), JStr (lit ''relationships'')]) =
     Inr (JList [JStr (lit ''entities''), JStr (lit ''relationships'')])"
proof -
  have "missing (lit ''entities'') [(lit ''entities'', JList [JInt 5])] = []"
    by (simp add: missing_def)
  moreover have "missing (lit ''relationships'') [(lit ''entities'', JList [JInt 5])]
      = [(lit ''relationships'', JList [])]"
    by (simp add: missing_def lit_def)
  moreover have "validate_and_repair (JList [JStr (lit ''entities''), JStr (lit ''relationships'')]) =
     Inr (JList [JStr (lit ''entities''), JStr (lit ''relationships'')])"
    by (simp add: validate_and_repair_def validate_json_schema_eq shallow_repair_def
          default_key_def)
  ultimately show ?thesis
    using spec_valid_test_graph
      validate_and_repair_shallow [of test_graph "[(lit ''entities'', JList [JInt 5])]"
        "JList [JStr (lit ''entities''), JStr (lit ''relationships'')]"
        "JList [JStr (lit ''entities''), JStr (lit ''relationships'')]"]
    by simp
qed

subsection \<open>The flow-chart text\<close>




lemma those_Cons_eq_Some:
  "those (x # xs) = Some ys \<longleftrightarrow> (\<exists>y ys'. x = Some y \<and> those xs = Some ys' \<and> ys = y # ys')"
  by (cases x) auto
















subsection \<open>The diagram renderer\<close>

lemma upsert_keys: "fst ` set (upsert k v kvs) = insert k (fst ` set kvs)"
  by (auto simp: upsert_def image_iff split: if_splits prod.splits) force+

lemma for_each_append:
  "for_each body (xs @ ys) s = then_do (for_each body xs s) (for_each body ys)"
  by (induction xs arbitrary: s) (auto simp: then_do_def split: sum.splits)

lemma add_entity_keys:
  assumes "add_entity fmt e (emap, G) = Inr (emap', G')"
  shows "\<exists>k. then_do (getitem e (lit ''id'')) hash_key = Inr k \<and>
             fst ` set emap' = insert k (fst ` set emap)"
proof -
  from assms obtain k e' where k: "then_do (getitem e (lit ''id'')) hash_key = Inr k"
    and m: "emap' = upsert k e' emap"
    unfolding add_entity_def by (auto simp: then_do_eq_Inr split: if_splits prod.splits)
  from m have "fst ` set emap' = insert k (fst ` set emap)" by (simp only: upsert_keys)
  with k show ?thesis by blast
qed

lemma for_each_add_entity_keys:
  "for_each (add_entity fmt) es (emap, G) = Inr (emap', G') \<Longrightarrow>
     fst ` set emap' = fst ` set emap \<union> set (entity_keys es)"
proof (induction es arbitrary: emap G)
  case Nil
  then show ?case by simp
next
  case (Cons e es)
  from Cons.prems obtain emap1 G1 where
    1: "add_entity fmt e (emap, G) = Inr (emap1, G1)" and
    2: "for_each (add_entity fmt) es (emap1, G1) = Inr (emap', G')"
    by (auto simp: then_do_eq_Inr)
  from add_entity_keys [OF 1] obtain k where
    k: "then_do (getitem e (lit ''id'')) hash_key = Inr k"
       "fst ` set emap1 = insert k (fst ` set emap)" by blast
  from Cons.IH [OF 2] k show ?case by auto
qed

lemma dangling_skipped:
  assumes "dangling ids rel" and "fst ` set entity_map = set ids"
  shows "add_relationship entity_map rel G = Inr G"
  using assms unfolding dangling_def add_relationship_def
  by (auto split: sum.splits)

lemma ensure_node_edges: "ensure_node n G = Inr G' \<Longrightarrow> edges G' = edges G"
  by (auto simp: ensure_node_def split: if_splits)

lemma add_edge_edges:
  assumes "add_edge u v t G = Inr G'"
  shows "fst ` set (edges G') = insert (u, v) (fst ` set (edges G))"
proof -
  from assms obtain G1 G2 where 1: "ensure_node u G = Inr G1" and 2: "ensure_node v G1 = Inr G2"
    and 3: "G' = G2\<lparr>edges := upsert (u, v) t (edges G2)\<rparr>"
    unfolding add_edge_def by (auto simp: then_do_eq_Inr)
  from ensure_node_edges [OF 1] ensure_node_edges [OF 2] 3
  have "edges G' = upsert (u, v) t (edges G)" by simp
  then show ?thesis by (simp only: upsert_keys)
qed

lemma edges_within_keys:
  "edges_within ks G \<longleftrightarrow> fst ` set (edges G) \<subseteq> ks \<times> ks"
  by (fastforce simp: edges_within_def)

lemma add_relationship_within:
  assumes "add_relationship entity_map rel G = Inr G'"
    and "edges_within (fst ` set entity_map) G"
  shows "edges_within (fst ` set entity_map) G'"
proof -
  from assms(1) consider "G' = G"
    | u v t where "u \<in> fst ` set entity_map" "v \<in> fst ` set entity_map"
        "add_edge u v t G = Inr G'"
    unfolding add_relationship_def by (auto simp: then_do_eq_Inr split: if_splits)
  then show ?thesis
  proof cases
    case 1
    with assms(2) show ?thesis by simp
  next
    case 2
    from add_edge_edges [OF 2(3)] assms(2) 2(1,2) show ?thesis
      unfolding edges_within_keys by simp
  qed
qed

lemma for_each_add_relationship_within:
  "for_each (add_relationship entity_map) rs G = Inr G' \<Longrightarrow>
   edges_within (fst ` set entity_map) G \<Longrightarrow> edges_within (fst ` set entity_map) G'"
proof (induction rs arbitrary: G)
  case Nil
  then show ?case by simp
next
  case (Cons r rs)
  from Cons.prems(1) obtain G1 where
    1: "add_relationship entity_map r G = Inr G1" and
    2: "for_each (add_relationship entity_map) rs G1 = Inr G'"
    by (auto simp: then_do_eq_Inr)
  from Cons.IH [OF 2 add_relationship_within [OF 1 Cons.prems(2)]] show ?case .
qed

lemma add_entity_edges:
  "add_entity fmt e (emap, G) = Inr (emap', G') \<Longrightarrow> edges G' = edges G"
  unfolding add_entity_def add_node_def
  by (auto simp: then_do_eq_Inr split: if_splits prod.splits)

lemma for_each_add_entity_edges:
  "for_each (add_entity fmt) es (emap, G) = Inr (emap', G') \<Longrightarrow> edges G' = edges G"
proof (induction es arbitrary: emap G)
  case Nil
  then show ?case by simp
next
  case (Cons e es)
  from Cons.prems obtain emap1 G1 where
    1: "add_entity fmt e (emap, G) = Inr (emap1, G1)" and
    2: "for_each (add_entity fmt) es (emap1, G1) = Inr (emap', G')"
    by (auto simp: then_do_eq_Inr)
  from add_entity_edges [OF 1] Cons.IH [OF 2] show ?case by simp
qed

lemma then_do_assoc: "then_do (then_do m f) g = then_do m (\<lambda>x. then_do (f x) g)"
  by (cases m) simp_all

lemma visualize_graph_items:
  "visualize_graph fmt g =
     then_do (items g (lit ''entities'')) (\<lambda>es.
     then_do (for_each (add_entity fmt) es ([], \<lparr>nodes = [], edges = []\<rparr>)) (\<lambda>st.
     then_do (items g (lit ''relationships'')) (\<lambda>rs.
     then_do (for_each (add_relationship (fst st)) rs (snd st)) (\<lambda>G.
     Inr (fst st, G)))))"
  unfolding visualize_graph_def items_def then_do_assoc
  by (simp add: case_prod_unfold)

text \<open>
  C6. A dangling relationship adds nothing to the drawn graph and raises nothing: the
  renderer builds the same graph, or stops with the same error, as on the graph without
  that relationship. Every edge of the graph it builds joins the ids of two entities.
\<close>

theorem visualize_graph_skips_dangling:
  "(items g (lit ''entities'') = Inr es \<and> items g' (lit ''entities'') = Inr es \<and>
    items g (lit ''relationships'') = Inr (rs1 @ r # rs2) \<and>
    items g' (lit ''relationships'') = Inr (rs1 @ rs2) \<and>
    dangling (entity_keys es) r
    \<longrightarrow> visualize_graph fmt g = visualize_graph fmt g') \<and>
   (items g (lit ''entities'') = Inr es \<and> visualize_graph fmt g = Inr (entity_map, G)
    \<longrightarrow> fst ` set entity_map = set (entity_keys es) \<and>
        (\<forall>e \<in> set (edges G). fst (fst e) \<in> set (entity_keys es) \<and>
                               snd (fst e) \<in> set (entity_keys es)))"
proof (intro conjI impI)
  assume a: "items g (lit ''entities'') = Inr es \<and> items g' (lit ''entities'') = Inr es \<and>
    items g (lit ''relationships'') = Inr (rs1 @ r # rs2) \<and>
    items g' (lit ''relationships'') = Inr (rs1 @ rs2) \<and>
    dangling (entity_keys es) r"
  show "visualize_graph fmt g = visualize_graph fmt g'"
  proof (cases "for_each (add_entity fmt) es ([], \<lparr>nodes = [], edges = []\<rparr>)")
    case (Inl err)
    with a show ?thesis by (simp add: visualize_graph_items)
  next
    case (Inr st)
    obtain emap G0 where st: "st = (emap, G0)" by (cases st)
    from for_each_add_entity_keys [OF Inr [unfolded st]]
    have keys: "fst ` set emap = set (entity_keys es)" by simp
    have skip: "\<And>G. add_relationship emap r G = Inr G"
      using a keys by (intro dangling_skipped) auto
    have "for_each (add_relationship emap) (rs1 @ r # rs2) G0 =
          for_each (add_relationship emap) (rs1 @ rs2) G0"
      by (cases "for_each (add_relationship emap) rs1 G0") (simp_all add: for_each_append skip)
    with a Inr st show ?thesis by (simp add: visualize_graph_items)
  qed
next
  assume b: "items g (lit ''entities'') = Inr es \<and> visualize_graph fmt g = Inr (entity_map, G)"
  then obtain G0 rs where
    1: "for_each (add_entity fmt) es ([], \<lparr>nodes = [], edges = []\<rparr>) = Inr (entity_map, G0)"
    and 2: "for_each (add_relationship entity_map) rs G0 = Inr G"
    by (auto simp: visualize_graph_items then_do_eq_Inr)
  from for_each_add_entity_keys [OF 1]
  show keys: "fst ` set entity_map = set (entity_keys es)" by simp
  from for_each_add_entity_edges [OF 1] have "edges_within (fst ` set entity_map) G0"
    by (simp add: edges_within_def)
  from for_each_add_relationship_within [OF 2 this] keys
  show "\<forall>e \<in> set (edges G). fst (fst e) \<in> set (entity_keys es) \<and>
                               snd (fst e) \<in> set (entity_keys es)"
    by (simp add: edges_within_def)
qed

theorem visualize_graph_skips_dangling_witness:
  "dangling (entity_keys [JDict [(lit ''id'', JStr (lit ''c1'')),
                                  (lit ''type'', JStr (lit ''Company'')),
                                  (lit ''name'', JStr (lit ''Jio''))]])
     (JDict [(lit ''source'', JStr (lit ''c1'')), (lit ''target'', JStr (lit ''ghost'')),
             (lit ''type'', JStr (lit ''OWNS''))]) \<and>
   visualize_graph (\<lambda>v. []) dangling_graph =
     Inr ([(KStr (lit ''c1''),
            JDict [(lit ''id'', JStr (lit ''c1'')), (lit ''type'', JStr (lit ''Company'')),
                   (lit ''name'', JStr (lit ''Jio''))])],
          \<lparr>nodes = [(KStr (lit ''c1''),
                     Some \<lparr>node_label = JStr (lit ''Jio''),
                           node_type = JStr (lit ''Company''),
                           node_name = JStr (lit ''Jio'')\<rparr>)],
           edges = []\<rparr>)"
proof -
  define jio where "jio = JDict [(lit ''id'', JStr (lit ''c1'')),
                                  (lit ''type'', JStr (lit ''Company'')),
                                  (lit ''name'', JStr (lit ''Jio''))]"
  define rel where "rel = JDict [(lit ''source'', JStr (lit ''c1'')),
                                  (lit ''target'', JStr (lit ''ghost'')),
                                  (lit ''type'', JStr (lit ''OWNS''))]"
  define g' where "g' = JDict [(lit ''entities'', JList [jio]), (lit ''relationships'', JList [])]"
  have d: "dangling (entity_keys [jio]) rel"
    by (simp add: dangling_def jio_def rel_def lit_def)
  have i1: "items dangling_graph (lit ''entities'') = Inr [jio]"
    by (simp add: dangling_graph_def items_def jio_def lit_def)
  have i2: "items g' (lit ''entities'') = Inr [jio]"
    by (simp add: g'_def items_def lit_def)
  have i3: "items dangling_graph (lit ''relationships'') = Inr ([] @ rel # [])"
    by (simp add: dangling_graph_def items_def rel_def lit_def)
  have i4: "items g' (lit ''relationships'') = Inr ([] @ [])"
    by (simp add: g'_def items_def lit_def)
  have v: "visualize_graph (\<lambda>v. []) g' =
     Inr ([(KStr (lit ''c1''), jio)],
          \<lparr>nodes = [(KStr (lit ''c1''),
                     Some \<lparr>node_label = JStr (lit ''Jio''),
                           node_type = JStr (lit ''Company''),
                           node_name = JStr (lit ''Jio'')\<rparr>)],
           edges = []\<rparr>)"
    by (simp add: g'_def jio_def visualize_graph_def add_entity_def add_node_def upsert_def
          lit_def)
  from visualize_graph_skips_dangling
         [of dangling_graph "[jio]" g' "[]" rel "[]" "\<lambda>v. []"] d i1 i2 i3 i4
  have "visualize_graph (\<lambda>v. []) dangling_graph = visualize_graph (\<lambda>v. []) g'"
    by blast
  with v d show ?thesis by (simp add: jio_def rel_def)
qed

end
